theory Spec2Isabelle
  imports Main
begin

section \<open>HTTP headers, requests and response writers\<close>

text \<open>
  The gateway (\<^verbatim>\<open>gateway.go\<close>) is written against Go's \<^verbatim>\<open>net/http\<close>. The parts of
  that library the source calls are modelled here by what their documentation says they
  do to the values the source hands them.

  \<^verbatim>\<open>http.Header\<close> is \<^verbatim>\<open>map[string][]string\<close>, keyed by canonical header names. Every
  key literal in the source is already in canonical form, so the canonicalisation that
  \<^verbatim>\<open>Get\<close> and \<^verbatim>\<open>Set\<close> apply to their key is the identity on them.
\<close>

type_synonym header = "string \<rightharpoonup> string list"

text \<open>\<^verbatim>\<open>Header.Get\<close>: the first value stored under the key, the empty string when there
  is none.\<close>

definition Header_Get :: "header \<Rightarrow> string \<Rightarrow> string" where
  "Header_Get h key = (case h key of None \<Rightarrow> [] | Some [] \<Rightarrow> [] | Some (v # _) \<Rightarrow> v)"

text \<open>\<^verbatim>\<open>Header.Set\<close>: replaces whatever is stored under the key by the single value.\<close>

definition Header_Set :: "header \<Rightarrow> string \<Rightarrow> string \<Rightarrow> header" where
  "Header_Set h key v = h(key \<mapsto> [v])"

text \<open>The fields of \<^verbatim>\<open>*http.Request\<close> that the source reads.\<close>

record request =
  Method :: string
  Host :: string
  RequestURI :: string
  Header :: header

text \<open>
  An \<^verbatim>\<open>http.ResponseWriter\<close>, as the calls made on it leave it: the header map that
  \<^verbatim>\<open>w.Header()\<close> returns and the status codes passed to \<^verbatim>\<open>w.WriteHeader\<close>, in order.
  The response body is not modelled. The last field belongs to the spy handler below,
  which records the requests it is asked to serve; no function of the gateway reads or
  writes it.
\<close>

record response_writer =
  hdr :: header
  codes :: "int list"
  spy_log :: "request list"

definition WriteHeader :: "response_writer \<Rightarrow> int \<Rightarrow> response_writer" where
  "WriteHeader w code = w\<lparr>codes := codes w @ [code]\<rparr>"

text \<open>An \<^verbatim>\<open>http.Handler\<close> is its \<^verbatim>\<open>ServeHTTP(w, r)\<close>: what it does to the writer.\<close>

type_synonym handler = "response_writer \<Rightarrow> request \<Rightarrow> response_writer"

text \<open>A handler that only records the request it was given.\<close>

definition spy :: handler where
  "spy w r = w\<lparr>spy_log := spy_log w @ [r]\<rparr>"

definition StatusOK :: int where
  "StatusOK = 200"

definition StatusMovedPermanently :: int where
  "StatusMovedPermanently = 301"

text \<open>\<^verbatim>\<open>strings.Join\<close>.\<close>

fun Join :: "string list \<Rightarrow> string \<Rightarrow> string" where
  "Join [] sep = []"
| "Join [x] sep = x"
| "Join (x # y # ys) sep = x @ sep @ Join (y # ys) sep"

section \<open>The CORS middleware\<close>

text \<open>\<^verbatim>\<open>var headers\<close>: the allowed CORS headers.\<close>

definition headers :: "string list" where
  "headers =
    [''Accept'', ''Accept-Encoding'', ''Authorization'', ''Content-Type'', ''Origin'',
     ''User-Agent'', ''X-CSRF-Token'', ''X-CSRFToken'', ''X-Request-ID'',
     ''X-Requested-With'']"

text \<open>\<^verbatim>\<open>var methods\<close>: \<^verbatim>\<open>http.MethodGet\<close>, \<^verbatim>\<open>MethodHead\<close>, \<^verbatim>\<open>MethodPost\<close>, \<^verbatim>\<open>MethodPut\<close>,
  \<^verbatim>\<open>MethodPatch\<close>, \<^verbatim>\<open>MethodDelete\<close>.\<close>

definition methods :: "string list" where
  "methods = [''GET'', ''HEAD'', ''POST'', ''PUT'', ''PATCH'', ''DELETE'']"

text \<open>\<^verbatim>\<open>preflightHandler\<close> sets three headers and returns; it does not look at the request.\<close>

definition preflightHandler :: handler where
  "preflightHandler w r =
    (let w1 = w\<lparr>hdr := Header_Set (hdr w) ''Access-Control-Allow-Headers'' (Join headers '','')\<rparr>;
         w2 = w1\<lparr>hdr := Header_Set (hdr w1) ''Access-Control-Allow-Methods'' (Join methods '','')\<rparr>
     in w2\<lparr>hdr := Header_Set (hdr w2) ''Access-Control-Max-Age'' ''3600''\<rparr>)"

text \<open>
  \<^verbatim>\<open>handleCORS\<close>: with a non-empty \<^verbatim>\<open>Origin\<close> the origin is echoed, and inside that branch
  an \<^verbatim>\<open>OPTIONS\<close> request with a non-empty \<^verbatim>\<open>Access-Control-Request-Method\<close> is answered
  by \<^verbatim>\<open>preflightHandler\<close>; every other request goes on to the wrapped handler.
\<close>

definition handleCORS :: "handler \<Rightarrow> handler" where
  "handleCORS h w r =
    (let origin = Header_Get (Header r) ''Origin'' in
     if origin \<noteq> [] then
       (let w1 = w\<lparr>hdr := Header_Set (hdr w) ''Access-Control-Allow-Origin'' origin\<rparr> in
        if Method r = ''OPTIONS'' \<and> Header_Get (Header r) ''Access-Control-Request-Method'' \<noteq> []
        then preflightHandler w1 r
        else h w1 r)
     else h w r)"

section \<open>The status-recording response writer\<close>

record loggingResponseWriter =
  ResponseWriter :: response_writer
  statusCode :: int

definition NewLoggingResponseWriter :: "response_writer \<Rightarrow> loggingResponseWriter" where
  "NewLoggingResponseWriter w = \<lparr>ResponseWriter = w, statusCode = StatusOK\<rparr>"

definition lrw_WriteHeader :: "loggingResponseWriter \<Rightarrow> int \<Rightarrow> loggingResponseWriter" where
  "lrw_WriteHeader lrw code =
    (let lrw1 = lrw\<lparr>statusCode := code\<rparr>
     in lrw1\<lparr>ResponseWriter := WriteHeader (ResponseWriter lrw1) code\<rparr>)"

text \<open>
  What a handler can do with the writer it is given. \<^verbatim>\<open>WriteHeader\<close> is the method the
  type defines; \<^verbatim>\<open>Header\<close> and \<^verbatim>\<open>Write\<close> are promoted from the embedded writer and go
  to it directly. \<^verbatim>\<open>Write\<close> sends body bytes, which the model does not keep.
\<close>

datatype writer_call =
  CallWriteHeader int
| CallHeaderSet string string
| CallWrite string

fun lrw_call :: "loggingResponseWriter \<Rightarrow> writer_call \<Rightarrow> loggingResponseWriter" where
  "lrw_call lrw (CallWriteHeader code) = lrw_WriteHeader lrw code"
| "lrw_call lrw (CallHeaderSet key v) =
     lrw\<lparr>ResponseWriter := (ResponseWriter lrw)\<lparr>hdr := Header_Set (hdr (ResponseWriter lrw)) key v\<rparr>\<rparr>"
| "lrw_call lrw (CallWrite bytes) = lrw"

fun lrw_calls :: "loggingResponseWriter \<Rightarrow> writer_call list \<Rightarrow> loggingResponseWriter" where
  "lrw_calls lrw [] = lrw"
| "lrw_calls lrw (c # cs) = lrw_calls (lrw_call lrw c) cs"

text \<open>The status codes a sequence of calls passes to \<^verbatim>\<open>WriteHeader\<close>, in order.\<close>

fun codes_passed :: "writer_call list \<Rightarrow> int list" where
  "codes_passed [] = []"
| "codes_passed (CallWriteHeader code # cs) = code # codes_passed cs"
| "codes_passed (_ # cs) = codes_passed cs"

section \<open>The redirect middleware\<close>

text \<open>
  \<^verbatim>\<open>hexEscapeNonASCII\<close> of \<^verbatim>\<open>net/http\<close>: every byte from \<open>0x80\<close> up becomes \<^verbatim>\<open>%\<close> and the byte
  in two lower-case hexadecimal digits; every other byte stays.
\<close>

definition hex_digit :: "nat \<Rightarrow> char" where
  "hex_digit n = ''0123456789abcdef'' ! (n mod 16)"

fun hexEscapeNonASCII :: "string \<Rightarrow> string" where
  "hexEscapeNonASCII [] = []"
| "hexEscapeNonASCII (c # cs) =
     (if 128 \<le> (of_char c :: nat)
      then CHR ''%'' # hex_digit (of_char c div 16) # hex_digit (of_char c mod 16)
             # hexEscapeNonASCII cs
      else c # hexEscapeNonASCII cs)"

text \<open>A string of ASCII bytes only.\<close>

definition isASCII :: "string \<Rightarrow> bool" where
  "isASCII s = list_all (\<lambda>c. (of_char c :: nat) < 128) s"

text \<open>
  \<^verbatim>\<open>http.Redirect(w, r, url, code)\<close> of \<^verbatim>\<open>net/http\<close>. It notes whether the header map has a
  \<^verbatim>\<open>Content-Type\<close> entry, sets \<^verbatim>\<open>Location\<close> to \<^verbatim>\<open>hexEscapeNonASCII(url)\<close>, sets
  \<^verbatim>\<open>Content-Type\<close> to \<^verbatim>\<open>text/html; charset=utf-8\<close> when there was none and the method is
  \<^verbatim>\<open>GET\<close> or \<^verbatim>\<open>HEAD\<close>, and writes the status code. For \<^verbatim>\<open>GET\<close> it then writes a short HTML
  body, which the model, keeping no body, leaves out. Its first step, making a URL
  without scheme and host absolute against the request path, does not apply to the URL
  \<^verbatim>\<open>redirectHTTP\<close> builds, which starts with \<^verbatim>\<open>https://\<close>.
\<close>

definition Redirect :: "response_writer \<Rightarrow> request \<Rightarrow> string \<Rightarrow> int \<Rightarrow> response_writer" where
  "Redirect w r url code =
    (let hadCT = (hdr w ''Content-Type'' \<noteq> None);
         w1 = w\<lparr>hdr := Header_Set (hdr w) ''Location'' (hexEscapeNonASCII url)\<rparr>;
         w2 = (if \<not> hadCT \<and> (Method r = ''GET'' \<or> Method r = ''HEAD'')
               then w1\<lparr>hdr := Header_Set (hdr w1) ''Content-Type'' ''text/html; charset=utf-8''\<rparr>
               else w1)
     in WriteHeader w2 code)"

text \<open>
  \<^verbatim>\<open>redirectHTTP\<close>: the redirect target is built from \<^verbatim>\<open>r.Host\<close> and \<^verbatim>\<open>r.RequestURI\<close> as the
  client sent them.
\<close>

definition redirectHTTP :: "handler \<Rightarrow> handler" where
  "redirectHTTP h w r =
    (if Header_Get (Header r) ''X-Forwarded-Proto'' = ''http'' then
       (let redirectTo = ''https://'' @ Host r @ RequestURI r
        in Redirect w r redirectTo StatusMovedPermanently)
     else h w r)"

section \<open>Gateway construction and server bootstrap\<close>

text \<open>
  \<^verbatim>\<open>newGateway\<close> and \<^verbatim>\<open>Run\<close> call code that is not part of this repository: the generated
  \<^verbatim>\<open>things.RegisterThingsHandlerFromEndpoint\<close>, the gateway library's multiplexer,
  \<^verbatim>\<open>http.ServeMux\<close> and \<^verbatim>\<open>http.ListenAndServe\<close>. They are parameters of the model:
  \<^item> \<open>register\<close>: the error the registration against an endpoint returns, \<open>None\<close> for
    \<^verbatim>\<open>nil\<close>;
  \<^item> \<open>gateway\<close>: the gateway multiplexer as a handler, once the backend is registered;
  \<^item> \<open>servemux\<close>: the handler an \<^verbatim>\<open>http.ServeMux\<close> is, given the patterns handled on it;
  \<^item> \<open>listen\<close>: the error \<^verbatim>\<open>http.ListenAndServe\<close> returns for an address, \<open>None\<close> when
    it binds and serves.
\<close>

type_synonym error = string

record platform =
  register :: "string \<Rightarrow> error option"
  gateway :: handler
  servemux :: "(string \<times> handler) list \<Rightarrow> handler"
  listen :: "string \<Rightarrow> error option"

text \<open>
  What the process has done so far: the lines it logged, the endpoints it tried to
  register the backend against, and the listeners it started, each with the address and
  the handler it serves.
\<close>

record process =
  logged :: "string list"
  registrations :: "string list"
  serving :: "(string \<times> handler) list"

text \<open>A call either returns a value or, like a listener that serves, never returns.\<close>

datatype 'a outcome = Returns 'a | Blocks

definition bindAddress :: string where
  "bindAddress = '':8080''"

definition RegisterThingsHandlerFromEndpoint ::
  "platform \<Rightarrow> string \<Rightarrow> process \<Rightarrow> error option \<times> process" where
  "RegisterThingsHandlerFromEndpoint env endpoint p =
    (register env endpoint, p\<lparr>registrations := registrations p @ [endpoint]\<rparr>)"

definition ListenAndServe ::
  "platform \<Rightarrow> string \<Rightarrow> handler \<Rightarrow> process \<Rightarrow> error outcome \<times> process" where
  "ListenAndServe env addr h p =
    (case listen env addr of
       Some err \<Rightarrow> (Returns err, p)
     | None \<Rightarrow> (Blocks, p\<lparr>serving := serving p @ [(addr, h)]\<rparr>))"

text \<open>\<^verbatim>\<open>newGateway\<close>: \<open>Inl\<close> is \<^verbatim>\<open>return nil, err\<close>, \<open>Inr\<close> is \<^verbatim>\<open>return mux, nil\<close>.\<close>

definition newGateway :: "platform \<Rightarrow> process \<Rightarrow> (error + handler) \<times> process" where
  "newGateway env p =
    (let p1 = p\<lparr>logged := logged p @ [''starting gateway server on '' @ bindAddress]\<rparr>;
         (err, p2) = RegisterThingsHandlerFromEndpoint env '':10808'' p1
     in case err of
          Some e \<Rightarrow> (Inl e, p2)
        | None \<Rightarrow> (Inr (gateway env), p2))"

text \<open>
  \<^verbatim>\<open>Run\<close>: the error it returns, or \<open>Blocks\<close> while the listener serves. The context it
  creates and cancels on return is passed to the registration only and is not modelled.
\<close>

definition Run :: "platform \<Rightarrow> string \<Rightarrow> process \<Rightarrow> error outcome \<times> process" where
  "Run env address p =
    (case newGateway env p of
       (Inl err, p1) \<Rightarrow> (Returns err, p1)
     | (Inr gw, p1) \<Rightarrow>
         (let mux = servemux env [(''/'', gw)]
          in ListenAndServe env address (handleCORS mux) p1))"

section \<open>Sample requests and platforms\<close>

definition NewRecorder :: response_writer where
  "NewRecorder = \<lparr>hdr = Map.empty, codes = [], spy_log = []\<rparr>"

definition preflight_request :: request where
  "preflight_request =
    \<lparr>Method = ''OPTIONS'', Host = ''example.com'', RequestURI = ''/things'',
     Header = [''Origin'' \<mapsto> [''https://app.example''],
               ''Access-Control-Request-Method'' \<mapsto> [''POST'']]\<rparr>"

definition options_without_origin :: request where
  "options_without_origin =
    \<lparr>Method = ''OPTIONS'', Host = ''example.com'', RequestURI = ''/things'',
     Header = [''Access-Control-Request-Method'' \<mapsto> [''POST'']]\<rparr>"

definition get_with_origin :: request where
  "get_with_origin =
    \<lparr>Method = ''GET'', Host = ''example.com'', RequestURI = ''/things'',
     Header = [''Origin'' \<mapsto> [''https://app.example'']]\<rparr>"

definition get_without_origin :: request where
  "get_without_origin =
    \<lparr>Method = ''GET'', Host = ''example.com'', RequestURI = ''/things'',
     Header = Map.empty\<rparr>"

definition forwarded :: "string \<Rightarrow> request" where
  "forwarded proto =
    \<lparr>Method = ''GET'', Host = ''example.com'', RequestURI = ''/foo?bar=1'',
     Header = [''X-Forwarded-Proto'' \<mapsto> [proto]]\<rparr>"

text \<open>A request whose URI ends in the two bytes of a UTF-8 encoded \<open>e\<close> with acute accent.\<close>

definition forwarded_cafe :: request where
  "forwarded_cafe =
    \<lparr>Method = ''POST'', Host = ''example.com'', RequestURI = ''/caf'' @ [CHR 0xC3, CHR 0xA9],
     Header = [''X-Forwarded-Proto'' \<mapsto> [''http'']]\<rparr>"

definition not_found :: handler where
  "not_found w r = WriteHeader w 404"

text \<open>A platform whose backend registration fails, and one where everything succeeds;
  on both, the multiplexers hand every request to the spy.\<close>

definition unreachable_backend :: platform where
  "unreachable_backend =
    \<lparr>register = (\<lambda>endpoint. Some ''connection refused''),
     gateway = spy,
     servemux = (\<lambda>routes. spy),
     listen = (\<lambda>addr. None)\<rparr>"

definition working_platform :: platform where
  "working_platform =
    \<lparr>register = (\<lambda>endpoint. None),
     gateway = spy,
     servemux = (\<lambda>routes. spy),
     listen = (\<lambda>addr. None)\<rparr>"

definition fresh_process :: process where
  "fresh_process = \<lparr>logged = [], registrations = [], serving = []\<rparr>"

section \<open>Facts about headers and the preflight handler\<close>

lemma Join_headers:
  "Join headers '','' = ''Accept,Accept-Encoding,Authorization,Content-Type,Origin,User-Agent,X-CSRF-Token,X-CSRFToken,X-Request-ID,X-Requested-With''"
  by (simp add: headers_def)

lemma Join_methods: "Join methods '','' = ''GET,HEAD,POST,PUT,PATCH,DELETE''"
  by (simp add: methods_def)

lemma hdr_preflightHandler:
  "hdr (preflightHandler w r) =
     (hdr w)(''Access-Control-Allow-Headers'' \<mapsto> [Join headers '',''],
             ''Access-Control-Allow-Methods'' \<mapsto> [Join methods '',''],
             ''Access-Control-Max-Age'' \<mapsto> [''3600''])"
  by (simp add: preflightHandler_def Header_Set_def Let_def)

lemma codes_preflightHandler: "codes (preflightHandler w r) = codes w"
  by (simp add: preflightHandler_def Let_def)

lemma spy_log_preflightHandler: "spy_log (preflightHandler w r) = spy_log w"
  by (simp add: preflightHandler_def Let_def)

lemma handleCORS_no_origin:
  "Header_Get (Header r) ''Origin'' = [] \<Longrightarrow> handleCORS h w r = h w r"
  by (simp add: handleCORS_def)

lemma handleCORS_is_preflight:
  "Header_Get (Header r) ''Origin'' \<noteq> [] \<Longrightarrow> Method r = ''OPTIONS'' \<Longrightarrow>
   Header_Get (Header r) ''Access-Control-Request-Method'' \<noteq> [] \<Longrightarrow>
   handleCORS h w r =
     preflightHandler
       (w\<lparr>hdr := Header_Set (hdr w) ''Access-Control-Allow-Origin'' (Header_Get (Header r) ''Origin'')\<rparr>) r"
  by (simp add: handleCORS_def Let_def)

lemma handleCORS_not_preflight:
  "Header_Get (Header r) ''Origin'' \<noteq> [] \<Longrightarrow>
   \<not> (Method r = ''OPTIONS'' \<and> Header_Get (Header r) ''Access-Control-Request-Method'' \<noteq> []) \<Longrightarrow>
   handleCORS h w r =
     h (w\<lparr>hdr := Header_Set (hdr w) ''Access-Control-Allow-Origin'' (Header_Get (Header r) ''Origin'')\<rparr>) r"
  by (auto simp add: handleCORS_def Let_def)

section \<open>The CORS middleware: requests without an origin\<close>

text \<open>
  Claim C4. For every request whose \<^verbatim>\<open>Origin\<close> header is absent or empty, \<^verbatim>\<open>handleCORS\<close>
  does exactly what the wrapped handler does with the same writer and the same request:
  it adds no header of its own, and a spy in the handler's place records that one
  request, unchanged, and finds the header map as it was.
\<close>

theorem handleCORS_without_origin:
  assumes "Header_Get (Header r) ''Origin'' = []"
  shows "handleCORS h w r = h w r
       \<and> spy_log (handleCORS spy w r) = spy_log w @ [r]
       \<and> hdr (handleCORS spy w r) = hdr w"
  using assms by (simp add: handleCORS_no_origin spy_def)

theorem handleCORS_without_origin_witness:
  "Header_Get (Header get_without_origin) ''Origin'' = []
   \<and> handleCORS not_found NewRecorder get_without_origin = not_found NewRecorder get_without_origin
   \<and> spy_log (handleCORS spy NewRecorder get_without_origin) = [get_without_origin]
   \<and> hdr (handleCORS spy NewRecorder get_without_origin) = Map.empty"
  using handleCORS_without_origin [where r = get_without_origin and w = NewRecorder and h = not_found]
  by (simp add: get_without_origin_def Header_Get_def NewRecorder_def)

section \<open>The CORS middleware: preflight requests\<close>

text \<open>
  Claim C1 as stated does not hold for a request without an origin. An \<^verbatim>\<open>OPTIONS\<close>
  request with \<^verbatim>\<open>Access-Control-Request-Method: POST\<close> and no \<^verbatim>\<open>Origin\<close>: none of the
  three preflight headers is written and the wrapped handler is called.
\<close>

theorem handleCORS_preflight_needs_origin_counterexample:
  "Method options_without_origin = ''OPTIONS''
   \<and> Header_Get (Header options_without_origin) ''Access-Control-Request-Method'' = ''POST''
   \<and> hdr (handleCORS spy NewRecorder options_without_origin) ''Access-Control-Allow-Headers'' = None
   \<and> hdr (handleCORS spy NewRecorder options_without_origin) ''Access-Control-Allow-Methods'' = None
   \<and> hdr (handleCORS spy NewRecorder options_without_origin) ''Access-Control-Max-Age'' = None
   \<and> spy_log (handleCORS spy NewRecorder options_without_origin) = [options_without_origin]"
  by (simp add: options_without_origin_def handleCORS_def Header_Get_def spy_def NewRecorder_def)


text \<open>
  Claim C1, amended. For every \<^verbatim>\<open>OPTIONS\<close> request with a non-empty
  \<^verbatim>\<open>Access-Control-Request-Method\<close> header and a non-empty \<^verbatim>\<open>Origin\<close> header, whatever
  else the request carries, \<^verbatim>\<open>handleCORS\<close> writes \<^verbatim>\<open>Access-Control-Allow-Headers\<close> and
  \<^verbatim>\<open>Access-Control-Allow-Methods\<close> from the two allow-lists and
  \<^verbatim>\<open>Access-Control-Max-Age: 3600\<close>, writes no status code, and returns without calling
  the wrapped handler: the outcome is the same for any two handlers, and a spy records
  nothing.
\<close>

theorem handleCORS_answers_preflight:
  assumes "Method r = ''OPTIONS''"
      and "Header_Get (Header r) ''Access-Control-Request-Method'' \<noteq> []"
      and "Header_Get (Header r) ''Origin'' \<noteq> []"
  shows "Header_Get (hdr (handleCORS h w r)) ''Access-Control-Allow-Headers'' = Join headers '',''
       \<and> Header_Get (hdr (handleCORS h w r)) ''Access-Control-Allow-Methods'' = Join methods '',''
       \<and> Header_Get (hdr (handleCORS h w r)) ''Access-Control-Max-Age'' = ''3600''
       \<and> codes (handleCORS h w r) = codes w
       \<and> handleCORS h w r = handleCORS h' w r
       \<and> spy_log (handleCORS spy w r) = spy_log w"
proof -
  have pf: "\<And>g. handleCORS g w r =
      preflightHandler
        (w\<lparr>hdr := Header_Set (hdr w) ''Access-Control-Allow-Origin''
                   (Header_Get (Header r) ''Origin'')\<rparr>) r"
    using assms by (simp add: handleCORS_is_preflight)
  have "handleCORS h w r = handleCORS h' w r"
    by (simp only: pf)
  moreover have "spy_log (handleCORS spy w r) = spy_log w"
    by (simp add: pf spy_log_preflightHandler)
  moreover have "codes (handleCORS h w r) = codes w"
    by (simp add: pf codes_preflightHandler)
  moreover have "Header_Get (hdr (handleCORS h w r)) ''Access-Control-Allow-Headers'' = Join headers '',''"
    by (simp add: pf hdr_preflightHandler Header_Get_def)
  moreover have "Header_Get (hdr (handleCORS h w r)) ''Access-Control-Allow-Methods'' = Join methods '',''"
    by (simp add: pf hdr_preflightHandler Header_Get_def)
  moreover have "Header_Get (hdr (handleCORS h w r)) ''Access-Control-Max-Age'' = ''3600''"
    by (simp add: pf hdr_preflightHandler Header_Get_def)
  ultimately show ?thesis by simp
qed

theorem handleCORS_answers_preflight_witness:
  "Method preflight_request = ''OPTIONS''
   \<and> Header_Get (Header preflight_request) ''Access-Control-Request-Method'' = ''POST''
   \<and> Header_Get (Header preflight_request) ''Origin'' = ''https://app.example''
   \<and> Header_Get (hdr (handleCORS not_found NewRecorder preflight_request)) ''Access-Control-Max-Age'' = ''3600''
   \<and> codes (handleCORS not_found NewRecorder preflight_request) = []
   \<and> handleCORS not_found NewRecorder preflight_request = handleCORS spy NewRecorder preflight_request
   \<and> spy_log (handleCORS spy NewRecorder preflight_request) = []"
proof -
  have m: "Method preflight_request = ''OPTIONS''"
    by (simp add: preflight_request_def)
  have a: "Header_Get (Header preflight_request) ''Access-Control-Request-Method'' = ''POST''"
    by (simp add: preflight_request_def Header_Get_def)
  have o: "Header_Get (Header preflight_request) ''Origin'' = ''https://app.example''"
    by (simp add: preflight_request_def Header_Get_def)
  have c: "codes NewRecorder = []" and l: "spy_log NewRecorder = []"
    by (simp_all add: NewRecorder_def)
  have "Header_Get (Header preflight_request) ''Access-Control-Request-Method'' \<noteq> []"
    and "Header_Get (Header preflight_request) ''Origin'' \<noteq> []"
    by (simp_all add: a o)
  from handleCORS_answers_preflight [where r = preflight_request and w = NewRecorder
        and h = not_found and h' = spy, OF m this]
  show ?thesis
    unfolding c l using m a o by blast
qed

text \<open>
  Claim C2. For every \<^verbatim>\<open>OPTIONS\<close> request with non-empty \<^verbatim>\<open>Origin\<close> and
  \<^verbatim>\<open>Access-Control-Request-Method\<close> headers, the response headers hold the complete
  allow-lists, joined by commas, and \<^verbatim>\<open>Access-Control-Max-Age: 3600\<close>, and the wrapped
  handler is called zero times.
\<close>

theorem handleCORS_preflight_allow_lists:
  assumes "Method r = ''OPTIONS''"
      and "Header_Get (Header r) ''Origin'' \<noteq> []"
      and "Header_Get (Header r) ''Access-Control-Request-Method'' \<noteq> []"
  shows "hdr (handleCORS h w r) ''Access-Control-Allow-Headers'' =
           Some [''Accept,Accept-Encoding,Authorization,Content-Type,Origin,User-Agent,X-CSRF-Token,X-CSRFToken,X-Request-ID,X-Requested-With'']
       \<and> hdr (handleCORS h w r) ''Access-Control-Allow-Methods'' =
           Some [''GET,HEAD,POST,PUT,PATCH,DELETE'']
       \<and> hdr (handleCORS h w r) ''Access-Control-Max-Age'' = Some [''3600'']
       \<and> spy_log (handleCORS spy w r) = spy_log w"
proof -
  have pf: "\<And>g. handleCORS g w r =
      preflightHandler
        (w\<lparr>hdr := Header_Set (hdr w) ''Access-Control-Allow-Origin''
                   (Header_Get (Header r) ''Origin'')\<rparr>) r"
    using assms by (simp add: handleCORS_is_preflight)
  have "hdr (handleCORS h w r) ''Access-Control-Allow-Headers'' = Some [Join headers '','']"
    by (simp add: pf hdr_preflightHandler)
  moreover have "hdr (handleCORS h w r) ''Access-Control-Allow-Methods'' = Some [Join methods '','']"
    by (simp add: pf hdr_preflightHandler)
  moreover have "hdr (handleCORS h w r) ''Access-Control-Max-Age'' = Some [''3600'']"
    by (simp add: pf hdr_preflightHandler)
  moreover have "spy_log (handleCORS spy w r) = spy_log w"
    by (simp add: pf spy_log_preflightHandler)
  ultimately show ?thesis
    by (simp only: Join_headers Join_methods simp_thms)
qed

theorem handleCORS_preflight_allow_lists_witness:
  "Method preflight_request = ''OPTIONS''
   \<and> Header_Get (Header preflight_request) ''Origin'' = ''https://app.example''
   \<and> Header_Get (Header preflight_request) ''Access-Control-Request-Method'' = ''POST''
   \<and> hdr (handleCORS spy NewRecorder preflight_request) ''Access-Control-Allow-Headers'' =
           Some [''Accept,Accept-Encoding,Authorization,Content-Type,Origin,User-Agent,X-CSRF-Token,X-CSRFToken,X-Request-ID,X-Requested-With'']
   \<and> hdr (handleCORS spy NewRecorder preflight_request) ''Access-Control-Allow-Methods'' =
           Some [''GET,HEAD,POST,PUT,PATCH,DELETE'']
   \<and> hdr (handleCORS spy NewRecorder preflight_request) ''Access-Control-Max-Age'' = Some [''3600'']
   \<and> spy_log (handleCORS spy NewRecorder preflight_request) = []"
proof -
  have m: "Method preflight_request = ''OPTIONS''"
    by (simp add: preflight_request_def)
  have a: "Header_Get (Header preflight_request) ''Access-Control-Request-Method'' = ''POST''"
    by (simp add: preflight_request_def Header_Get_def)
  have o: "Header_Get (Header preflight_request) ''Origin'' = ''https://app.example''"
    by (simp add: preflight_request_def Header_Get_def)
  have l: "spy_log NewRecorder = []"
    by (simp add: NewRecorder_def)
  have "Header_Get (Header preflight_request) ''Origin'' \<noteq> []"
    and "Header_Get (Header preflight_request) ''Access-Control-Request-Method'' \<noteq> []"
    by (simp_all add: a o)
  from handleCORS_preflight_allow_lists [where r = preflight_request and w = NewRecorder
        and h = spy, OF m this]
  show ?thesis
    unfolding l using m a o by blast
qed

section \<open>The CORS middleware: echoing the origin\<close>

text \<open>
  Claim C3. For every request whose \<^verbatim>\<open>Origin\<close> header has the non-empty value \<open>X\<close>, whatever
  \<open>X\<close> is, the response carries \<^verbatim>\<open>Access-Control-Allow-Origin\<close> with exactly the value
  \<open>X\<close>. On the preflight path this holds for every wrapped handler, which is not run; on
  the other path the header is set before the wrapped handler runs, so it holds for the
  spy and for every handler that leaves this header as it finds it.
\<close>

theorem handleCORS_echoes_origin:
  assumes "Header_Get (Header r) ''Origin'' = X" and "X \<noteq> []"
  shows "hdr (handleCORS spy w r) ''Access-Control-Allow-Origin'' = Some [X]
       \<and> (Method r = ''OPTIONS'' \<and> Header_Get (Header r) ''Access-Control-Request-Method'' \<noteq> []
            \<longrightarrow> hdr (handleCORS h w r) ''Access-Control-Allow-Origin'' = Some [X])
       \<and> ((\<forall>w'. hdr (h w' r) ''Access-Control-Allow-Origin'' = hdr w' ''Access-Control-Allow-Origin'')
            \<longrightarrow> hdr (handleCORS h w r) ''Access-Control-Allow-Origin'' = Some [X])"
proof -
  let ?w1 = "w\<lparr>hdr := Header_Set (hdr w) ''Access-Control-Allow-Origin'' X\<rparr>"
  have o: "Header_Get (Header r) ''Origin'' \<noteq> []"
    using assms by simp
  have set: "hdr ?w1 ''Access-Control-Allow-Origin'' = Some [X]"
    by (simp add: Header_Set_def)
  have pre: "hdr (handleCORS g w r) ''Access-Control-Allow-Origin'' = Some [X]"
    if "Method r = ''OPTIONS'' \<and> Header_Get (Header r) ''Access-Control-Request-Method'' \<noteq> []" for g
  proof -
    have "handleCORS g w r = preflightHandler ?w1 r"
      using that o assms(1) by (simp add: handleCORS_is_preflight)
    then show ?thesis
      by (simp add: hdr_preflightHandler Header_Set_def)
  qed
  have frame: "hdr (handleCORS g w r) ''Access-Control-Allow-Origin'' = Some [X]"
    if "\<forall>w'. hdr (g w' r) ''Access-Control-Allow-Origin'' = hdr w' ''Access-Control-Allow-Origin''" for g
  proof (cases "Method r = ''OPTIONS'' \<and> Header_Get (Header r) ''Access-Control-Request-Method'' \<noteq> []")
    case True
    then show ?thesis by (rule pre)
  next
    case False
    then have "handleCORS g w r = g ?w1 r"
      using o assms(1) by (simp add: handleCORS_not_preflight)
    then show ?thesis
      using that set by simp
  qed
  have "\<forall>w'. hdr (spy w' r) ''Access-Control-Allow-Origin'' = hdr w' ''Access-Control-Allow-Origin''"
    by (simp add: spy_def)
  then have "hdr (handleCORS spy w r) ''Access-Control-Allow-Origin'' = Some [X]"
    by (rule frame)
  then show ?thesis
    using pre frame by blast
qed

theorem handleCORS_echoes_origin_witness:
  "Header_Get (Header get_with_origin) ''Origin'' = ''https://app.example''
   \<and> hdr (handleCORS spy NewRecorder get_with_origin) ''Access-Control-Allow-Origin'' = Some [''https://app.example'']
   \<and> Header_Get (Header preflight_request) ''Origin'' = ''https://app.example''
   \<and> hdr (handleCORS not_found NewRecorder preflight_request) ''Access-Control-Allow-Origin'' = Some [''https://app.example'']
   \<and> hdr (handleCORS not_found NewRecorder get_with_origin) ''Access-Control-Allow-Origin'' = Some [''https://app.example'']"
proof -
  have og: "Header_Get (Header get_with_origin) ''Origin'' = ''https://app.example''"
    by (simp add: get_with_origin_def Header_Get_def)
  have op: "Header_Get (Header preflight_request) ''Origin'' = ''https://app.example''"
    by (simp add: preflight_request_def Header_Get_def)
  have ne: "''https://app.example'' \<noteq> []"
    by simp
  have pre: "Method preflight_request = ''OPTIONS''
      \<and> Header_Get (Header preflight_request) ''Access-Control-Request-Method'' \<noteq> []"
    by (simp add: preflight_request_def Header_Get_def)
  have fr: "\<forall>w'. hdr (not_found w' get_with_origin) ''Access-Control-Allow-Origin'' = hdr w' ''Access-Control-Allow-Origin''"
    by (simp add: not_found_def WriteHeader_def)
  from handleCORS_echoes_origin [OF og ne, where w = NewRecorder and h = not_found]
    handleCORS_echoes_origin [OF op ne, where w = NewRecorder and h = not_found]
  show ?thesis
    using og op pre fr by blast
qed

text \<open>
  Claim C10. For every \<^verbatim>\<open>OPTIONS\<close> request with a non-empty
  \<^verbatim>\<open>Access-Control-Request-Method\<close> header and an absent or empty \<^verbatim>\<open>Origin\<close> header,
  \<^verbatim>\<open>handleCORS\<close> does not answer as for a preflight: it does what the wrapped handler
  does, a spy records exactly that one request, and none of the four CORS headers is
  changed.
\<close>

theorem handleCORS_options_without_origin:
  assumes "Method r = ''OPTIONS''"
      and "Header_Get (Header r) ''Access-Control-Request-Method'' \<noteq> []"
      and "Header_Get (Header r) ''Origin'' = []"
  shows "handleCORS h w r = h w r
       \<and> spy_log (handleCORS spy w r) = spy_log w @ [r]
       \<and> hdr (handleCORS spy w r) ''Access-Control-Allow-Origin'' = hdr w ''Access-Control-Allow-Origin''
       \<and> hdr (handleCORS spy w r) ''Access-Control-Allow-Headers'' = hdr w ''Access-Control-Allow-Headers''
       \<and> hdr (handleCORS spy w r) ''Access-Control-Allow-Methods'' = hdr w ''Access-Control-Allow-Methods''
       \<and> hdr (handleCORS spy w r) ''Access-Control-Max-Age'' = hdr w ''Access-Control-Max-Age''"
  using assms(3) by (simp add: handleCORS_no_origin spy_def)

theorem handleCORS_options_without_origin_witness:
  "Method options_without_origin = ''OPTIONS''
   \<and> Header_Get (Header options_without_origin) ''Access-Control-Request-Method'' = ''POST''
   \<and> Header_Get (Header options_without_origin) ''Origin'' = []
   \<and> handleCORS not_found NewRecorder options_without_origin = not_found NewRecorder options_without_origin
   \<and> codes (not_found NewRecorder options_without_origin) = [404]
   \<and> spy_log (handleCORS spy NewRecorder options_without_origin) = [options_without_origin]
   \<and> hdr (handleCORS spy NewRecorder options_without_origin) ''Access-Control-Max-Age'' = None"
proof -
  have m: "Method options_without_origin = ''OPTIONS''"
    by (simp add: options_without_origin_def)
  have a: "Header_Get (Header options_without_origin) ''Access-Control-Request-Method'' = ''POST''"
    by (simp add: options_without_origin_def Header_Get_def)
  have o: "Header_Get (Header options_without_origin) ''Origin'' = []"
    by (simp add: options_without_origin_def Header_Get_def)
  have a': "Header_Get (Header options_without_origin) ''Access-Control-Request-Method'' \<noteq> []"
    by (simp add: a)
  have l: "spy_log NewRecorder @ [options_without_origin] = [options_without_origin]"
    and n: "hdr NewRecorder ''Access-Control-Max-Age'' = None"
    and c: "codes (not_found NewRecorder options_without_origin) = [404]"
    by (simp_all add: NewRecorder_def not_found_def WriteHeader_def)
  from handleCORS_options_without_origin [OF m a' o, where w = NewRecorder and h = not_found]
  show ?thesis
    unfolding l n using m a o c by blast
qed


section \<open>The redirect middleware: facts and claims\<close>

lemma redirectHTTP_http:
  "Header_Get (Header r) ''X-Forwarded-Proto'' = ''http'' \<Longrightarrow>
   redirectHTTP h w r = Redirect w r (''https://'' @ Host r @ RequestURI r) StatusMovedPermanently"
  by (simp add: redirectHTTP_def)

lemma redirectHTTP_other:
  "Header_Get (Header r) ''X-Forwarded-Proto'' \<noteq> ''http'' \<Longrightarrow> redirectHTTP h w r = h w r"
  by (simp add: redirectHTTP_def)

lemma codes_Redirect: "codes (Redirect w r url code) = codes w @ [code]"
  by (simp add: Redirect_def WriteHeader_def Let_def)

lemma Location_Redirect:
  "hdr (Redirect w r url code) ''Location'' = Some [hexEscapeNonASCII url]"
  by (simp add: Redirect_def WriteHeader_def Header_Set_def Let_def)

lemma spy_log_Redirect: "spy_log (Redirect w r url code) = spy_log w"
  by (simp add: Redirect_def WriteHeader_def Let_def)

lemma hexEscapeNonASCII_ascii: "isASCII s \<Longrightarrow> hexEscapeNonASCII s = s"
  unfolding isASCII_def by (induction s) auto

lemma hexEscapeNonASCII_https:
  "hexEscapeNonASCII (''https://'' @ s) = ''https://'' @ hexEscapeNonASCII s"
  by simp

text \<open>
  Claim C5 as stated does not hold for a request URI with a byte outside ASCII. For
  \<^verbatim>\<open>Host: example.com\<close> and a URI of \<^verbatim>\<open>/caf\<close> followed by the bytes \<open>0xC3\<close> and \<open>0xA9\<close>, the
  \<^verbatim>\<open>Location\<close> is \<^verbatim>\<open>https://example.com/caf%c3%a9\<close>, which is not the host and the URI as
  the client sent them.
\<close>

theorem redirectHTTP_escapes_location_counterexample:
  "Header_Get (Header forwarded_cafe) ''X-Forwarded-Proto'' = ''http''
   \<and> hdr (redirectHTTP spy NewRecorder forwarded_cafe) ''Location'' =
        Some [''https://example.com/caf%c3%a9'']
   \<and> hdr (redirectHTTP spy NewRecorder forwarded_cafe) ''Location'' \<noteq>
        Some [''https://'' @ Host forwarded_cafe @ RequestURI forwarded_cafe]"
  by (simp add: forwarded_cafe_def Header_Get_def redirectHTTP_def Location_Redirect
      hex_digit_def)

text \<open>
  Claim C5, amended. For every request whose \<^verbatim>\<open>X-Forwarded-Proto\<close> header is exactly
  \<^verbatim>\<open>http\<close>, \<^verbatim>\<open>redirectHTTP\<close> writes status 301 and sets \<^verbatim>\<open>Location\<close> to \<^verbatim>\<open>https://\<close> followed
  by the request's \<^verbatim>\<open>Host\<close> and \<^verbatim>\<open>RequestURI\<close>, in which \<^verbatim>\<open>http.Redirect\<close> has replaced
  every byte outside ASCII by its percent-encoding; when \<^verbatim>\<open>Host\<close> and \<^verbatim>\<open>RequestURI\<close> are
  ASCII, that is exactly \<^verbatim>\<open>https://\<close>, the host and the URI as they are. The wrapped
  handler is not called: the outcome is the same for any two handlers, and a spy
  records nothing.
\<close>

theorem redirectHTTP_redirects_to_https:
  assumes "Header_Get (Header r) ''X-Forwarded-Proto'' = ''http''"
  shows "codes (redirectHTTP h w r) = codes w @ [301]
       \<and> hdr (redirectHTTP h w r) ''Location'' =
           Some [''https://'' @ hexEscapeNonASCII (Host r @ RequestURI r)]
       \<and> (isASCII (Host r) \<and> isASCII (RequestURI r) \<longrightarrow>
            hdr (redirectHTTP h w r) ''Location'' = Some [''https://'' @ Host r @ RequestURI r])
       \<and> redirectHTTP h w r = redirectHTTP h' w r
       \<and> spy_log (redirectHTTP spy w r) = spy_log w"
proof -
  have rd: "\<And>g. redirectHTTP g w r =
      Redirect w r (''https://'' @ Host r @ RequestURI r) StatusMovedPermanently"
    using assms by (rule redirectHTTP_http)
  have "codes (redirectHTTP h w r) = codes w @ [301]"
    by (simp add: rd codes_Redirect StatusMovedPermanently_def)
  moreover have loc: "hdr (redirectHTTP h w r) ''Location'' =
      Some [''https://'' @ hexEscapeNonASCII (Host r @ RequestURI r)]"
    by (simp only: rd Location_Redirect hexEscapeNonASCII_https)
  moreover have "hdr (redirectHTTP h w r) ''Location'' = Some [''https://'' @ Host r @ RequestURI r]"
    if "isASCII (Host r) \<and> isASCII (RequestURI r)"
  proof -
    from that have "isASCII (Host r @ RequestURI r)"
      by (simp add: isASCII_def)
    then have "hexEscapeNonASCII (Host r @ RequestURI r) = Host r @ RequestURI r"
      by (rule hexEscapeNonASCII_ascii)
    with loc show ?thesis by simp
  qed
  moreover have "redirectHTTP h w r = redirectHTTP h' w r"
    by (simp only: rd)
  moreover have "spy_log (redirectHTTP spy w r) = spy_log w"
    by (simp add: rd spy_log_Redirect)
  ultimately show ?thesis by blast
qed

theorem redirectHTTP_redirects_to_https_witness:
  "Header_Get (Header (forwarded ''http'')) ''X-Forwarded-Proto'' = ''http''
   \<and> Host (forwarded ''http'') = ''example.com''
   \<and> RequestURI (forwarded ''http'') = ''/foo?bar=1''
   \<and> isASCII ''example.com'' \<and> isASCII ''/foo?bar=1''
   \<and> codes (redirectHTTP spy NewRecorder (forwarded ''http'')) = [301]
   \<and> hdr (redirectHTTP spy NewRecorder (forwarded ''http'')) ''Location'' =
        Some [''https://example.com/foo?bar=1'']
   \<and> spy_log (redirectHTTP spy NewRecorder (forwarded ''http'')) = []"
proof -
  have x: "Header_Get (Header (forwarded ''http'')) ''X-Forwarded-Proto'' = ''http''"
    by (simp add: forwarded_def Header_Get_def)
  have hu: "Host (forwarded ''http'') = ''example.com''"
    "RequestURI (forwarded ''http'') = ''/foo?bar=1''"
    by (simp_all add: forwarded_def)
  have asc: "isASCII ''example.com''" "isASCII ''/foo?bar=1''"
    by (simp_all add: isASCII_def)
  have u: "''https://'' @ ''example.com'' @ ''/foo?bar=1'' = ''https://example.com/foo?bar=1''"
    by simp
  have c: "codes NewRecorder @ [301] = [301]" and l: "spy_log NewRecorder = []"
    by (simp_all add: NewRecorder_def)
  from redirectHTTP_redirects_to_https [OF x, where w = NewRecorder and h = spy and h' = spy]
  show ?thesis
    unfolding hu u c l using x hu asc by blast
qed

text \<open>
  Claim C6. For every request whose \<^verbatim>\<open>X-Forwarded-Proto\<close> header is absent or has any
  value other than exactly \<^verbatim>\<open>http\<close>, \<^verbatim>\<open>redirectHTTP\<close> does what the wrapped handler does
  with the same writer and request; a spy records exactly that request, and no status
  code and no header is written.
\<close>

theorem redirectHTTP_passes_other_requests:
  assumes "Header_Get (Header r) ''X-Forwarded-Proto'' \<noteq> ''http''"
  shows "redirectHTTP h w r = h w r
       \<and> spy_log (redirectHTTP spy w r) = spy_log w @ [r]
       \<and> codes (redirectHTTP spy w r) = codes w
       \<and> hdr (redirectHTTP spy w r) = hdr w"
  using assms by (simp add: redirectHTTP_other spy_def)

theorem redirectHTTP_passes_other_requests_witness:
  "Header_Get (Header (forwarded ''https'')) ''X-Forwarded-Proto'' = ''https''
   \<and> spy_log (redirectHTTP spy NewRecorder (forwarded ''https'')) = [forwarded ''https'']
   \<and> codes (redirectHTTP spy NewRecorder (forwarded ''https'')) = []
   \<and> Header_Get (Header (forwarded ''HTTP'')) ''X-Forwarded-Proto'' = ''HTTP''
   \<and> spy_log (redirectHTTP spy NewRecorder (forwarded ''HTTP'')) = [forwarded ''HTTP'']
   \<and> codes (redirectHTTP spy NewRecorder (forwarded ''HTTP'')) = []
   \<and> Header_Get (Header (forwarded ''Http'')) ''X-Forwarded-Proto'' = ''Http''
   \<and> spy_log (redirectHTTP spy NewRecorder (forwarded ''Http'')) = [forwarded ''Http'']
   \<and> codes (redirectHTTP spy NewRecorder (forwarded ''Http'')) = []
   \<and> Header_Get (Header get_without_origin) ''X-Forwarded-Proto'' = []
   \<and> spy_log (redirectHTTP spy NewRecorder get_without_origin) = [get_without_origin]
   \<and> codes (redirectHTTP spy NewRecorder get_without_origin) = []
   \<and> redirectHTTP not_found NewRecorder get_without_origin = not_found NewRecorder get_without_origin"
proof -
  have g: "\<And>p. Header_Get (Header (forwarded p)) ''X-Forwarded-Proto'' = p"
    by (simp add: forwarded_def Header_Get_def)
  have a: "Header_Get (Header get_without_origin) ''X-Forwarded-Proto'' = []"
    by (simp add: get_without_origin_def Header_Get_def)
  have n1: "Header_Get (Header (forwarded ''https'')) ''X-Forwarded-Proto'' \<noteq> ''http''"
    and n2: "Header_Get (Header (forwarded ''HTTP'')) ''X-Forwarded-Proto'' \<noteq> ''http''"
    and n3: "Header_Get (Header (forwarded ''Http'')) ''X-Forwarded-Proto'' \<noteq> ''http''"
    and n4: "Header_Get (Header get_without_origin) ''X-Forwarded-Proto'' \<noteq> ''http''"
    by (simp_all add: g a)
  have l: "\<And>r. spy_log NewRecorder @ [r] = [r]" and c: "codes NewRecorder = []"
    by (simp_all add: NewRecorder_def)
  from redirectHTTP_passes_other_requests [OF n1, where w = NewRecorder and h = spy]
    redirectHTTP_passes_other_requests [OF n2, where w = NewRecorder and h = spy]
    redirectHTTP_passes_other_requests [OF n3, where w = NewRecorder and h = spy]
    redirectHTTP_passes_other_requests [OF n4, where w = NewRecorder and h = spy]
    redirectHTTP_passes_other_requests [OF n4, where w = NewRecorder and h = not_found]
  show ?thesis
    unfolding l c using g a by blast
qed

section \<open>The status-recording response writer: facts and claims\<close>

lemma statusCode_lrw_call:
  "statusCode (lrw_call lrw c) = last (statusCode lrw # codes_passed [c])"
  by (cases c) (simp_all add: lrw_WriteHeader_def Let_def)

lemma codes_lrw_call:
  "codes (ResponseWriter (lrw_call lrw c)) = codes (ResponseWriter lrw) @ codes_passed [c]"
  by (cases c) (simp_all add: lrw_WriteHeader_def WriteHeader_def Let_def)

lemma codes_passed_Cons: "codes_passed (c # cs) = codes_passed [c] @ codes_passed cs"
  by (cases c) simp_all

lemma statusCode_lrw_calls:
  "statusCode (lrw_calls lrw cs) = last (statusCode lrw # codes_passed cs)"
proof (induction cs arbitrary: lrw)
  case Nil
  show ?case by simp
next
  case (Cons c cs)
  have "statusCode (lrw_calls lrw (c # cs)) = last (statusCode (lrw_call lrw c) # codes_passed cs)"
    by (simp add: Cons.IH)
  also have "\<dots> = last (last (statusCode lrw # codes_passed [c]) # codes_passed cs)"
    by (simp only: statusCode_lrw_call)
  also have "\<dots> = last (statusCode lrw # codes_passed (c # cs))"
    by (cases c) simp_all
  finally show ?case .
qed

lemma codes_lrw_calls:
  "codes (ResponseWriter (lrw_calls lrw cs)) = codes (ResponseWriter lrw) @ codes_passed cs"
proof (induction cs arbitrary: lrw)
  case Nil
  show ?case by simp
next
  case (Cons c cs)
  have "codes (ResponseWriter (lrw_calls lrw (c # cs))) =
      (codes (ResponseWriter lrw) @ codes_passed [c]) @ codes_passed cs"
    by (simp add: Cons.IH codes_lrw_call)
  then show ?case
    by (simp add: codes_passed_Cons [of c cs])
qed

text \<open>
  Claim C7. A new \<^verbatim>\<open>loggingResponseWriter\<close> holds status 200, and after any sequence of
  calls its \<^verbatim>\<open>statusCode\<close> is the last code passed to \<^verbatim>\<open>WriteHeader\<close>, or 200 when
  \<^verbatim>\<open>WriteHeader\<close> was never called; every code is also passed on to the embedded writer.
\<close>

theorem loggingResponseWriter_records_last_status:
  "statusCode (NewLoggingResponseWriter w) = 200
   \<and> statusCode (lrw_calls (NewLoggingResponseWriter w) cs) = last (200 # codes_passed cs)
   \<and> codes (ResponseWriter (lrw_calls (NewLoggingResponseWriter w) cs)) = codes w @ codes_passed cs"
  by (simp add: statusCode_lrw_calls codes_lrw_calls NewLoggingResponseWriter_def StatusOK_def)

theorem loggingResponseWriter_records_last_status_witness:
  "statusCode (lrw_calls (NewLoggingResponseWriter NewRecorder) [CallWriteHeader 404]) = 404
   \<and> statusCode (lrw_calls (NewLoggingResponseWriter NewRecorder)
        [CallHeaderSet ''Content-Type'' ''text/plain'', CallWrite ''ok'']) = 200
   \<and> statusCode (lrw_calls (NewLoggingResponseWriter NewRecorder)
        [CallWriteHeader 404, CallWrite ''gone'', CallWriteHeader 500]) = 500"
proof -
  have a: "last (200 # codes_passed [CallWriteHeader 404]) = (404::int)"
    and b: "last (200 # codes_passed [CallHeaderSet ''Content-Type'' ''text/plain'', CallWrite ''ok'']) = (200::int)"
    and c: "last (200 # codes_passed [CallWriteHeader 404, CallWrite ''gone'', CallWriteHeader 500]) = (500::int)"
    by simp_all
  from loggingResponseWriter_records_last_status [where w = NewRecorder and cs = "[CallWriteHeader 404]"]
    loggingResponseWriter_records_last_status [where w = NewRecorder
      and cs = "[CallHeaderSet ''Content-Type'' ''text/plain'', CallWrite ''ok'']"]
    loggingResponseWriter_records_last_status [where w = NewRecorder
      and cs = "[CallWriteHeader 404, CallWrite ''gone'', CallWriteHeader 500]"]
  show ?thesis
    unfolding a b c by blast
qed


section \<open>Gateway construction and server bootstrap: facts and claims\<close>

lemma newGateway_failure:
  "register env '':10808'' = Some e \<Longrightarrow>
   newGateway env p =
     (Inl e, p\<lparr>logged := logged p @ [''starting gateway server on '' @ bindAddress],
               registrations := registrations p @ ['':10808'']\<rparr>)"
  by (simp add: newGateway_def RegisterThingsHandlerFromEndpoint_def)

lemma newGateway_success:
  "register env '':10808'' = None \<Longrightarrow>
   newGateway env p =
     (Inr (gateway env), p\<lparr>logged := logged p @ [''starting gateway server on '' @ bindAddress],
               registrations := registrations p @ ['':10808'']\<rparr>)"
  by (simp add: newGateway_def RegisterThingsHandlerFromEndpoint_def)

lemma Run_failure:
  "register env '':10808'' = Some e \<Longrightarrow>
   Run env address p =
     (Returns e, p\<lparr>logged := logged p @ [''starting gateway server on '' @ bindAddress],
               registrations := registrations p @ ['':10808'']\<rparr>)"
  by (simp add: Run_def newGateway_failure)

lemma Run_success:
  "register env '':10808'' = None \<Longrightarrow> listen env address = None \<Longrightarrow>
   Run env address p =
     (Blocks, p\<lparr>logged := logged p @ [''starting gateway server on '' @ bindAddress],
               registrations := registrations p @ ['':10808''],
               serving := serving p @ [(address, handleCORS (servemux env [(''/'', gateway env)]))]\<rparr>)"
  by (simp add: Run_def newGateway_success ListenAndServe_def)

text \<open>
  Claim C8. \<^verbatim>\<open>newGateway\<close> returns an error, and no handler, exactly when the
  registration against \<^verbatim>\<open>:10808\<close> returns one, and it is that error; the registration is
  attempted once. In that case \<^verbatim>\<open>Run\<close> returns the same error, no listener has been
  started, and still only one registration has been attempted.
\<close>

theorem newGateway_failure_aborts_Run:
  "(fst (newGateway env p) = Inl e) = (register env '':10808'' = Some e)
   \<and> (\<exists>gw. fst (newGateway env p) = Inr gw) = (register env '':10808'' = None)
   \<and> registrations (snd (newGateway env p)) = registrations p @ ['':10808'']
   \<and> (register env '':10808'' = Some e \<longrightarrow>
        fst (Run env address p) = Returns e
        \<and> serving (snd (Run env address p)) = serving p
        \<and> registrations (snd (Run env address p)) = registrations p @ ['':10808''])"
proof (cases "register env '':10808''")
  case None
  then show ?thesis
    by (simp add: newGateway_success)
next
  case (Some e')
  then show ?thesis
    by (simp add: newGateway_failure Run_failure)
qed

theorem newGateway_failure_aborts_Run_witness:
  "register unreachable_backend '':10808'' = Some ''connection refused''
   \<and> fst (newGateway unreachable_backend fresh_process) = Inl ''connection refused''
   \<and> fst (Run unreachable_backend bindAddress fresh_process) = Returns ''connection refused''
   \<and> serving (snd (Run unreachable_backend bindAddress fresh_process)) = []
   \<and> registrations (snd (Run unreachable_backend bindAddress fresh_process)) = ['':10808'']"
proof -
  have f: "register unreachable_backend '':10808'' = Some ''connection refused''"
    by (simp add: unreachable_backend_def)
  have s: "serving fresh_process = []" and r: "registrations fresh_process @ ['':10808''] = ['':10808'']"
    by (simp_all add: fresh_process_def)
  from newGateway_failure_aborts_Run [where env = unreachable_backend and p = fresh_process
      and e = "''connection refused''" and address = bindAddress]
  show ?thesis
    unfolding s r using f by blast
qed

text \<open>
  Claim C9. When registration and binding succeed, the handler \<^verbatim>\<open>Run\<close> serves is exactly
  \<^verbatim>\<open>handleCORS\<close> applied to the root multiplexer that holds the gateway under \<^verbatim>\<open>/\<close>;
  \<^verbatim>\<open>redirectHTTP\<close> is not part of it. For a request with \<^verbatim>\<open>X-Forwarded-Proto: http\<close> and
  a multiplexer that only records, this chain writes no status code and no
  \<^verbatim>\<open>Location\<close>, where the same chain under \<^verbatim>\<open>redirectHTTP\<close> would write 301.
\<close>

theorem Run_serves_handleCORS_of_mux:
  assumes "register env '':10808'' = None" and "listen env address = None"
  shows "fst (Run env address p) = Blocks
       \<and> serving (snd (Run env address p)) =
           serving p @ [(address, handleCORS (servemux env [(''/'', gateway env)]))]
       \<and> (Header_Get (Header r) ''X-Forwarded-Proto'' = ''http'' \<longrightarrow>
            codes (handleCORS spy w r) = codes w
            \<and> hdr (handleCORS spy w r) ''Location'' = hdr w ''Location''
            \<and> codes (redirectHTTP (handleCORS spy) w r) = codes w @ [301])"
proof -
  have "fst (Run env address p) = Blocks"
    using assms by (simp add: Run_success)
  moreover have "serving (snd (Run env address p)) =
      serving p @ [(address, handleCORS (servemux env [(''/'', gateway env)]))]"
    using assms by (simp add: Run_success)
  moreover have "codes (handleCORS spy w r) = codes w"
    by (simp add: handleCORS_def Let_def codes_preflightHandler spy_def)
  moreover have "hdr (handleCORS spy w r) ''Location'' = hdr w ''Location''"
    by (simp add: handleCORS_def Let_def hdr_preflightHandler spy_def Header_Set_def)
  moreover have "codes (redirectHTTP (handleCORS spy) w r) = codes w @ [301]"
    if "Header_Get (Header r) ''X-Forwarded-Proto'' = ''http''"
    using that by (simp add: redirectHTTP_http codes_Redirect StatusMovedPermanently_def)
  ultimately show ?thesis by blast
qed

theorem Run_serves_handleCORS_of_mux_witness:
  "register working_platform '':10808'' = None
   \<and> listen working_platform bindAddress = None
   \<and> Header_Get (Header (forwarded ''http'')) ''X-Forwarded-Proto'' = ''http''
   \<and> fst (Run working_platform bindAddress fresh_process) = Blocks
   \<and> serving (snd (Run working_platform bindAddress fresh_process)) = [(bindAddress, handleCORS spy)]
   \<and> codes (handleCORS spy NewRecorder (forwarded ''http'')) = []
   \<and> hdr (handleCORS spy NewRecorder (forwarded ''http'')) ''Location'' = None"
proof -
  have g: "register working_platform '':10808'' = None"
    and b: "listen working_platform bindAddress = None"
    and m: "servemux working_platform [(''/'', gateway working_platform)] = spy"
    by (simp_all add: working_platform_def)
  have x: "Header_Get (Header (forwarded ''http'')) ''X-Forwarded-Proto'' = ''http''"
    by (simp add: forwarded_def Header_Get_def)
  have s: "serving fresh_process @ [(bindAddress, handleCORS spy)] = [(bindAddress, handleCORS spy)]"
    and c: "codes NewRecorder = []" and l: "hdr NewRecorder ''Location'' = None"
    by (simp_all add: fresh_process_def NewRecorder_def)
  from Run_serves_handleCORS_of_mux [OF g b, where p = fresh_process and w = NewRecorder
      and r = "forwarded ''http''"]
  show ?thesis
    unfolding m s c l using g b x by blast
qed

end
